theory Spec2Isabelle
  imports Complex_Main
begin

section \<open>CreditRater: a model of the browser client and of the services it calls\<close>

text \<open>
  The repository holds the browser side of CreditRater: the React application
  (\<^verbatim>\<open>frontend/src/App.js\<close> with its components), the key/model storage helpers of
  \<^verbatim>\<open>frontend/src/main.js\<close>, and an older plain-DOM client. JavaScript strings are
  modelled as \<^typ>\<open>string\<close>, the list of the bytes of their UTF-8 form (one byte for
  each ASCII character), a missing or \<^verbatim>\<open>null\<close> value as \<^const>\<open>None\<close>, a thrown
  \<^verbatim>\<open>Error\<close> as the left summand of a sum, and every side effect (an alert, a
  callback, an HTTP request) as an entry of a returned list. The services the client
  calls are not part of the repository; where a property depends on one, it is modelled
  from the specification and marked so.
\<close>

subsection \<open>The file picker: \<^verbatim>\<open>components/FileDrop.js\<close>\<close>

text \<open>
  A \<^verbatim>\<open>File\<close> as the client sees it: its name, and the pages of the PDF it holds
  (the text extracted from each page; the number of pages is the length of the list).
\<close>

record pdf_file =
  name :: string
  pages :: "string list"

text \<open>
  Case folding of a regular expression with the \<^verbatim>\<open>i\<close> flag and without the
  \<^verbatim>\<open>u\<close> flag: a character is upper-cased, and a character beyond ASCII never
  folds onto an ASCII one. Of the bytes, only \<^verbatim>\<open>a\<close>..\<^verbatim>\<open>z\<close> move; the bytes of a
  character beyond ASCII are left as they are, which decides a match against the ASCII
  pattern below in the same way.
\<close>

definition canonicalize :: "char \<Rightarrow> char" where
  "canonicalize c =
     (let n = (of_char c :: nat) in if 97 \<le> n \<and> n \<le> 122 then char_of (n - 32) else c)"

text \<open>
  \<^verbatim>\<open>/\.pdf$/i\<close> tried at one start position: a literal dot, then \<^verbatim>\<open>p\<close>,
  \<^verbatim>\<open>d\<close>, \<^verbatim>\<open>f\<close> under case folding, then the end of the input.
\<close>

fun pdf_match_here :: "string \<Rightarrow> bool" where
  "pdf_match_here [a, b, c, d] =
     (a = CHR ''.'' \<and> canonicalize b = canonicalize (CHR ''p'')
      \<and> canonicalize c = canonicalize (CHR ''d'') \<and> canonicalize d = canonicalize (CHR ''f''))"
| "pdf_match_here _ = False"

text \<open>\<^verbatim>\<open>RegExp.prototype.test\<close>: the pattern is tried at every start position in turn.\<close>

fun pdf_regex_test :: "string \<Rightarrow> bool" where
  "pdf_regex_test [] = pdf_match_here []"
| "pdf_regex_test (c # cs) = (pdf_match_here (c # cs) \<or> pdf_regex_test cs)"

datatype drop_effect = Alert string | OnFile pdf_file

text \<open>
  \<^verbatim>\<open>handleFiles(files)\<close>. The argument is \<^verbatim>\<open>null\<close> (\<^const>\<open>None\<close>) or a
  \<^verbatim>\<open>FileList\<close>; \<^verbatim>\<open>files && files[0]\<close> is falsy for \<^verbatim>\<open>null\<close> and for the
  empty list, and the handler returns at once.
\<close>

definition handleFiles :: "pdf_file list option \<Rightarrow> drop_effect list" where
  "handleFiles files =
     (case files of
        None \<Rightarrow> []
      | Some [] \<Rightarrow> []
      | Some (f # _) \<Rightarrow>
          if \<not> pdf_regex_test (name f) then [Alert ''Please choose a PDF file.'']
          else [OnFile f])"

text \<open>
  The property in the words of the specification: the name ends in \<^verbatim>\<open>.pdf\<close>,
  letters compared without regard to case.
\<close>

definition lower_ascii :: "char \<Rightarrow> char" where
  "lower_ascii c =
     (let n = (of_char c :: nat) in if 65 \<le> n \<and> n \<le> 90 then char_of (n + 32) else c)"

definition ends_in_pdf :: "string \<Rightarrow> bool" where
  "ends_in_pdf s =
     (4 \<le> length s \<and> map lower_ascii (drop (length s - 4) s) = ''.pdf'')"

subsection \<open>Key and model storage: \<^verbatim>\<open>main.js\<close>\<close>

type_synonym storage = "string \<rightharpoonup> string"

text \<open>
  The two Web Storage areas and the three form controls of the settings bar
  (\<^verbatim>\<open>openaiKey\<close>, \<^verbatim>\<open>openaiModel\<close>, \<^verbatim>\<open>rememberKey\<close>).
\<close>

record browser =
  localStorage :: storage
  sessionStorage :: storage
  keyInput :: string
  modelInput :: string
  remember :: bool

text \<open>
  The characters that \<^verbatim>\<open>String.prototype.trim\<close> removes (white space and line
  terminators: U+0009 to U+000D, U+0020, U+00A0, U+1680, U+2000 to U+200A, U+2028, U+2029,
  U+202F, U+205F, U+3000, U+FEFF), each by its UTF-8 bytes.
\<close>

definition js_white_space :: "string list" where
  "js_white_space =
     [ [CHR 0x09], [CHR 0x0A], [CHR 0x0B], [CHR 0x0C], [CHR 0x0D], [CHR 0x20],
      [CHR 0xC2, CHR 0xA0],
      [CHR 0xE1, CHR 0x9A, CHR 0x80],
      [CHR 0xE2, CHR 0x80, CHR 0x80], [CHR 0xE2, CHR 0x80, CHR 0x81],
      [CHR 0xE2, CHR 0x80, CHR 0x82], [CHR 0xE2, CHR 0x80, CHR 0x83],
      [CHR 0xE2, CHR 0x80, CHR 0x84], [CHR 0xE2, CHR 0x80, CHR 0x85],
      [CHR 0xE2, CHR 0x80, CHR 0x86], [CHR 0xE2, CHR 0x80, CHR 0x87],
      [CHR 0xE2, CHR 0x80, CHR 0x88], [CHR 0xE2, CHR 0x80, CHR 0x89],
      [CHR 0xE2, CHR 0x80, CHR 0x8A],
      [CHR 0xE2, CHR 0x80, CHR 0xA8], [CHR 0xE2, CHR 0x80, CHR 0xA9],
      [CHR 0xE2, CHR 0x80, CHR 0xAF],
      [CHR 0xE2, CHR 0x81, CHR 0x9F],
      [CHR 0xE3, CHR 0x80, CHR 0x80],
      [CHR 0xEF, CHR 0xBB, CHR 0xBF] ]"

text \<open>Removing from the front of a string every leading occurrence of one of the given
  byte sequences.\<close>

function strip_front :: "string list \<Rightarrow> string \<Rightarrow> string" where
  "strip_front ws s =
     (case find (\<lambda>w. w \<noteq> [] \<and> take (length w) s = w) ws of
        None \<Rightarrow> s
      | Some w \<Rightarrow> strip_front ws (drop (length w) s))"
  by pat_completeness auto
termination
proof (relation "measure (\<lambda>(ws, s). length s)")
  show "wf (measure (\<lambda>(ws, s). length s))" by simp
next
  fix ws :: "string list" and s w :: string
  assume "find (\<lambda>w. w \<noteq> [] \<and> take (length w) s = w) ws = Some w"
  then have w: "w \<noteq> []" "take (length w) s = w" by (auto simp: find_Some_iff)
  from w(2) have "length (take (length w) s) = length w" by simp
  then have "length w \<le> length s" by simp
  with w(1) have "length s - length w < length s" by (cases w) auto
  then show "((ws, drop (length w) s), (ws, s)) \<in> measure (\<lambda>(ws, s). length s)" by simp
qed

declare strip_front.simps [simp del]

text \<open>\<^verbatim>\<open>String.prototype.trim\<close>: white space is removed at the front, then at the end
  (the end of a string is the front of its reversal).\<close>

definition js_trim :: "string \<Rightarrow> string" where
  "js_trim s = rev (strip_front (map rev js_white_space) (rev (strip_front js_white_space s)))"

text \<open>\<^verbatim>\<open>initApiSettings\<close>: the controls are filled from \<^verbatim>\<open>localStorage\<close>
  (an empty saved string is falsy and fills nothing).\<close>

definition initApiSettings :: "browser \<Rightarrow> browser" where
  "initApiSettings b =
     (let b1 = (case localStorage b ''OPENAI_KEY'' of
                  Some k \<Rightarrow> if k \<noteq> [] then b\<lparr>keyInput := k, remember := True\<rparr> else b
                | None \<Rightarrow> b)
      in (case localStorage b ''OPENAI_MODEL'' of
            Some m \<Rightarrow> if m \<noteq> [] then b1\<lparr>modelInput := m\<rparr> else b1
          | None \<Rightarrow> b1))"







record api_auth =
  auth_key :: string
  auth_model :: string

text \<open>\<^verbatim>\<open>getApiAuth\<close>: \<^verbatim>\<open>getItem\<close> gives \<^verbatim>\<open>null\<close> for an absent entry, and
  \<^verbatim>\<open>??\<close> passes on exactly then.\<close>

definition getApiAuth :: "browser \<Rightarrow> api_auth" where
  "getApiAuth b =
     \<lparr>auth_key =
        (case sessionStorage b ''OPENAI_KEY'' of
           Some k \<Rightarrow> k
         | None \<Rightarrow> (case localStorage b ''OPENAI_KEY'' of Some k \<Rightarrow> k | None \<Rightarrow> [])),
      auth_model =
        (case sessionStorage b ''OPENAI_MODEL'' of
           Some m \<Rightarrow> m
         | None \<Rightarrow> (case localStorage b ''OPENAI_MODEL'' of
                      Some m \<Rightarrow> m
                    | None \<Rightarrow> ''gpt-4.1-mini''))\<rparr>"



subsection \<open>JavaScript values and the operators the client applies to them\<close>

text \<open>
  A value decoded from a JSON body, or \<^verbatim>\<open>undefined\<close>. Numbers are kept to the
  integers; an object is the list of its entries, the first entry of a key being the one
  a property read finds.
\<close>

datatype json =
    JUndefined
  | JNull
  | JBool bool
  | JNum int
  | JStr string
  | JArr "json list"
  | JObj "(string \<times> json) list"

datatype js_error = TypeError string | JsError string

text \<open>\<^verbatim>\<open>String(e)\<close> for a thrown error.\<close>

fun error_text :: "js_error \<Rightarrow> string" where
  "error_text (TypeError m) = ''TypeError: '' @ m"
| "error_text (JsError m) = ''Error: '' @ m"

text \<open>Truthiness, as tested by \<^verbatim>\<open>!x\<close>, \<^verbatim>\<open>x || y\<close> and \<^verbatim>\<open>x ? a : b\<close>.\<close>

fun truthy :: "json \<Rightarrow> bool" where
  "truthy JUndefined = False"
| "truthy JNull = False"
| "truthy (JBool b) = b"
| "truthy (JNum n) = (n \<noteq> 0)"
| "truthy (JStr s) = (s \<noteq> [])"
| "truthy (JArr _) = True"
| "truthy (JObj _) = True"

text \<open>The values that \<^verbatim>\<open>??\<close> and \<^verbatim>\<open>?.\<close> treat as absent.\<close>

fun nullish :: "json \<Rightarrow> bool" where
  "nullish JUndefined = True"
| "nullish JNull = True"
| "nullish _ = False"

definition js_or :: "json \<Rightarrow> json \<Rightarrow> json" where
  "js_or a b = (if truthy a then a else b)"

definition js_coalesce :: "json \<Rightarrow> json \<Rightarrow> json" where
  "js_coalesce a b = (if nullish a then b else a)"

text \<open>
  A property read \<^verbatim>\<open>o.k\<close> on a receiver that is not \<^verbatim>\<open>null\<close> or
  \<^verbatim>\<open>undefined\<close>, for the data properties this client reads (none of them is
  defined by a built-in prototype, so only an object can hold one).
\<close>

fun js_prop :: "json \<Rightarrow> string \<Rightarrow> json" where
  "js_prop (JObj kvs) k = (case map_of kvs k of Some v \<Rightarrow> v | None \<Rightarrow> JUndefined)"
| "js_prop _ k = JUndefined"

text \<open>\<^verbatim>\<open>o.k\<close>: reading a property of \<^verbatim>\<open>null\<close> or \<^verbatim>\<open>undefined\<close> throws.\<close>

definition js_get :: "json \<Rightarrow> string \<Rightarrow> js_error + json" where
  "js_get o' k =
     (if nullish o' then Inl (TypeError (''Cannot read properties of null or undefined (reading '' @ k @ '')''))
      else Inr (js_prop o' k))"



text \<open>Decimal digits of a number, as \<^verbatim>\<open>String\<close> prints an integer.\<close>

fun show_nat :: "nat \<Rightarrow> string" where
  "show_nat n =
     (if n < 10 then [char_of (48 + n)] else show_nat (n div 10) @ [char_of (48 + n mod 10)])"

declare show_nat.simps [simp del]

definition show_int :: "int \<Rightarrow> string" where
  "show_int i = (if i < 0 then CHR ''-'' # show_nat (nat (- i)) else show_nat (nat i))"

fun js_join :: "string \<Rightarrow> string list \<Rightarrow> string" where
  "js_join sep [] = []"
| "js_join sep [x] = x"
| "js_join sep (x # y # ys) = x @ sep @ js_join sep (y # ys)"

text \<open>
  \<^verbatim>\<open>String(x)\<close>, which is also what a template literal \<^verbatim>\<open>`${x}`\<close> inserts. An
  array prints its elements separated by commas, an absent element as nothing.
\<close>

fun js_to_string :: "json \<Rightarrow> string" where
  "js_to_string JUndefined = ''undefined''"
| "js_to_string JNull = ''null''"
| "js_to_string (JBool b) = (if b then ''true'' else ''false'')"
| "js_to_string (JNum n) = show_int n"
| "js_to_string (JStr s) = s"
| "js_to_string (JArr xs) =
     js_join '','' (map (\<lambda>x. if nullish x then [] else js_to_string x) xs)"
| "js_to_string (JObj _) = ''[object Object]''"

text \<open>The em dash U+2014 shown for an absent score or rating, as its UTF-8 bytes.\<close>

definition em_dash :: string where
  "em_dash = [char_of (226 :: nat), char_of (128 :: nat), char_of (148 :: nat)]"

text \<open>
  \<^verbatim>\<open>xs.map(f)\<close> for a callback that may throw: the first exception ends the loop. The
  callback receives the element and its index.
\<close>

fun map_rows :: "(json \<Rightarrow> nat \<Rightarrow> js_error + 'a) \<Rightarrow> nat \<Rightarrow> json list \<Rightarrow> js_error + 'a list" where
  "map_rows f idx [] = Inr []"
| "map_rows f idx (r # rs) =
     (case f r idx of
        Inl e \<Rightarrow> Inl e
      | Inr c \<Rightarrow> (case map_rows f (Suc idx) rs of Inl e \<Rightarrow> Inl e | Inr cs \<Rightarrow> Inr (c # cs)))"

subsection \<open>The result table of the React client (\<^verbatim>\<open>ResultsTable\<close>)\<close>












subsection \<open>HTTP requests\<close>

text \<open>
  A request as passed to \<^verbatim>\<open>fetch\<close> (always a POST here) and the response the client
  reads: the \<^verbatim>\<open>ok\<close> flag, the body as text and the body as decoded JSON. The server
  is a function from requests to responses.
\<close>

record request =
  path :: string
  headers :: "(string \<times> string) list"
  payload :: json

record response =
  ok :: bool
  text_body :: string
  json_body :: json

text \<open>
  \<^verbatim>\<open>postJSON(path, body)\<close> of \<^verbatim>\<open>main.js\<close>. The result is the returned value or
  the thrown error, together with the requests that were issued.
\<close>

definition postJSON ::
  "browser \<Rightarrow> (request \<Rightarrow> response) \<Rightarrow> string \<Rightarrow> json \<Rightarrow> (js_error + json) \<times> request list" where
  "postJSON b fetch p body =
     (let a = getApiAuth b
      in if auth_key a = []
         then (Inl (JsError ''OpenAI key not set (paste it at the top and click Save).''), [])
         else
           (let req = \<lparr>path = p,
                       headers = [(''Content-Type'', ''application/json''),
                                  (''X-OpenAI-Key'', auth_key a),
                                  (''X-OpenAI-Model'', auth_model a)],
                       payload = body\<rparr>;
                res = fetch req
            in if \<not> ok res then (Inl (JsError (text_body res)), [req])
               else (Inr (json_body res), [req])))"

subsection \<open>The plain-DOM client\<close>

text \<open>
  The page elements the handlers read and write, and the script variable
  \<^verbatim>\<open>uploadedId\<close>. A radio button is its value and its \<^verbatim>\<open>checked\<close> flag; a manual
  factor input is its \<^verbatim>\<open>data-factor\<close> code and its value; \<^verbatim>\<open>resultsTable\<close> is the
  \<^verbatim>\<open>innerHTML\<close> of the table body, the markup as the handler assigns it.
\<close>

datatype estimate_out =
    Estimating
  | EstimateShown string string string
  | EstimateText string

datatype analyze_status = Analysing | StatusShown string

record dom =
  apiKeyInput :: string
  modeRadios :: "(string \<times> bool) list"
  cutPages :: string
  industrySelect :: string
  manualValues :: "(string \<times> string) list"
  uploadedId :: json
  estimateOut :: estimate_out
  analyzeStatus :: analyze_status
  resultsTable :: string
  finalScore :: string

datatype effect = Alerted string | Sent request

definition getApiKey :: "dom \<Rightarrow> string" where
  "getApiKey d = js_trim (apiKeyInput d)"

text \<open>\<^verbatim>\<open>modeRadios.find(x => x.checked)?.value ?? "text"\<close>.\<close>

definition selected_mode :: "(string \<times> bool) list \<Rightarrow> string" where
  "selected_mode radios = (case find snd radios of None \<Rightarrow> ''text'' | Some r \<Rightarrow> fst r)"

text \<open>
  The request the click handler of \<^verbatim>\<open>estimateBtn\<close> sends: the body is
  \<^verbatim>\<open>{ file_id: uploadedId, pages, mode, api_key: key || null }\<close>.
\<close>

definition estimate_request :: "dom \<Rightarrow> request" where
  "estimate_request d =
     (let pgs = js_trim (cutPages d);
          mode = selected_mode (modeRadios d);
          key = getApiKey d
      in \<lparr>path = ''/estimate'',
          headers = [(''Content-Type'', ''application/json'')],
          payload = JObj [(''file_id'', uploadedId d),
                          (''pages'', JStr pgs),
                          (''mode'', JStr mode),
                          (''api_key'', js_or (JStr key) JNull)]\<rparr>)"

text \<open>
  The click handler of \<^verbatim>\<open>estimateBtn\<close>. The result is the page afterwards, the
  alerts and requests in order, and the exception that ended the handler, if any.
\<close>

definition estimate_click ::
  "(request \<Rightarrow> response) \<Rightarrow> dom \<Rightarrow> dom \<times> effect list \<times> js_error option" where
  "estimate_click fetch d =
     (if \<not> truthy (uploadedId d) then (d, [Alerted ''Upload a PDF first.''], None)
      else
        (let d1 = d\<lparr>estimateOut := Estimating\<rparr>;
             req = estimate_request d;
             res = fetch req;
             data = json_body res
         in if ok res then
              (case js_get data ''input_tokens'' of
                 Inl e \<Rightarrow> (d1, [Sent req], Some e)
               | Inr it \<Rightarrow>
                   (d1\<lparr>estimateOut :=
                         EstimateShown (js_to_string it)
                           (js_to_string (js_prop data ''output_tokens''))
                           (js_to_string (js_prop data ''estimated_cost''))\<rparr>,
                    [Sent req], None))
            else
              (case js_get data ''detail'' of
                 Inl e \<Rightarrow> (d1, [Sent req], Some e)
               | Inr det \<Rightarrow>
                   (d1\<lparr>estimateOut :=
                         EstimateText (js_to_string (js_or det (JStr ''Failed to estimate.'')))\<rparr>,
                    [Sent req], None))))"

text \<open>
  The four texts the row template interpolates for a row \<open>r\<close> that is not \<^verbatim>\<open>null\<close>:
  \<^verbatim>\<open>${r.factor}\<close>, \<^verbatim>\<open>${r.weight ?? ""}\<close>, \<^verbatim>\<open>${r.description ?? r.value ?? ""}\<close>
  and \<^verbatim>\<open>${r.score ?? ""}\<close>.
\<close>

definition breakdown_texts :: "json \<Rightarrow> string list" where
  "breakdown_texts r =
     [js_to_string (js_prop r ''factor''),
      js_to_string (js_coalesce (js_prop r ''weight'') (JStr [])),
      js_to_string
        (js_coalesce (js_coalesce (js_prop r ''description'') (js_prop r ''value'')) (JStr [])),
      js_to_string (js_coalesce (js_prop r ''score'') (JStr []))]"

text \<open>
  The row template filled with its texts: a line break and four spaces, \<^verbatim>\<open><tr>\<close>, one
  \<^verbatim>\<open><td>\<close> element on a line of its own for each text, \<^verbatim>\<open></tr>\<close> and the closing
  line. The texts are inserted as they are, without escaping.
\<close>

definition row_markup :: "string list \<Rightarrow> string" where
  "row_markup texts =
     CHR 0x0A # ''    <tr>''
     @ concat (map (\<lambda>t. CHR 0x0A # ''      <td>'' @ t @ ''</td>'') texts)
     @ CHR 0x0A # ''    </tr>'' @ CHR 0x0A # ''  ''"

text \<open>One row of \<^verbatim>\<open>rows.map(r => `<tr>...</tr>`)\<close>; reading \<^verbatim>\<open>r.factor\<close> comes
  first and throws for a row that is \<^verbatim>\<open>null\<close>.\<close>

definition breakdown_row :: "json \<Rightarrow> nat \<Rightarrow> js_error + string" where
  "breakdown_row r idx =
     (case js_get r ''factor'' of
        Inl e \<Rightarrow> Inl e
      | Inr factor \<Rightarrow> Inr (row_markup (breakdown_texts r)))"

text \<open>
  The request the click handler of \<^verbatim>\<open>analyzeBtn\<close> sends. The manual values are the
  trimmed, non-empty inputs by factor code (the page has one input for each code).
\<close>

definition analyze_request :: "dom \<Rightarrow> request" where
  "analyze_request d =
     (let pgs = js_trim (cutPages d);
          mode = selected_mode (modeRadios d);
          industryId = js_or (JStr (industrySelect d)) JNull;
          key = getApiKey d;
          manual = JObj (map (\<lambda>(code, v). (code, JStr (js_trim v)))
                           (filter (\<lambda>(code, v). js_trim v \<noteq> []) (manualValues d)))
      in \<lparr>path = ''/analyze'',
          headers = [(''Content-Type'', ''application/json'')],
          payload = JObj [(''file_id'', uploadedId d),
                          (''pages'', JStr pgs),
                          (''mode'', JStr mode),
                          (''industry_id'', industryId),
                          (''manual_values'', manual),
                          (''api_key'', js_or (JStr key) JNull)]\<rparr>)"

text \<open>The click handler of \<^verbatim>\<open>analyzeBtn\<close>.\<close>

definition analyze_click ::
  "(request \<Rightarrow> response) \<Rightarrow> dom \<Rightarrow> dom \<times> effect list \<times> js_error option" where
  "analyze_click fetch d =
     (if \<not> truthy (uploadedId d) then (d, [Alerted ''Upload a PDF first.''], None)
      else
        (let d1 = d\<lparr>analyzeStatus := Analysing, resultsTable := [], finalScore := []\<rparr>;
             req = analyze_request d;
             res = fetch req;
             data = json_body res
         in if \<not> ok res then
              (case js_get data ''detail'' of
                 Inl e \<Rightarrow> (d1, [Sent req], Some e)
               | Inr det \<Rightarrow>
                   (d1\<lparr>analyzeStatus :=
                         StatusShown (js_to_string (js_or det (JStr ''Analysis failed.'')))\<rparr>,
                    [Sent req], None))
            else
              (let d2 = d1\<lparr>analyzeStatus := StatusShown ''Done.''\<rparr>
               in case js_get data ''breakdown'' of
                    Inl e \<Rightarrow> (d2, [Sent req], Some e)
                  | Inr b \<Rightarrow>
                      (case js_or b (JArr []) of
                         JArr rs \<Rightarrow>
                           (case map_rows breakdown_row 0 rs of
                              Inl e \<Rightarrow> (d2, [Sent req], Some e)
                            | Inr rows \<Rightarrow>
                                (d2\<lparr>resultsTable := concat rows,
                                    finalScore :=
                                      ''Final rating: ''
                                      @ js_to_string
                                          (js_coalesce (js_prop data ''final_rating'') (JStr em_dash))
                                      @ '' | Composite score: ''
                                      @ js_to_string
                                          (js_coalesce (js_prop data ''composite_score'')
                                             (JStr em_dash))\<rparr>,
                                 [Sent req], None))
                       | _ \<Rightarrow> (d2, [Sent req], Some (TypeError ''rows.map is not a function''))))))"

subsection \<open>Empty cells, and two simple servers\<close>




text \<open>A server that insists on a key: a request whose \<^verbatim>\<open>api_key\<close> is \<^verbatim>\<open>null\<close>
  is refused with a \<^verbatim>\<open>detail\<close> text, any other is answered with an empty object.\<close>

definition key_required_server :: "request \<Rightarrow> response" where
  "key_required_server req =
     (if js_prop (payload req) ''api_key'' = JNull
      then \<lparr>ok = False, text_body = ''API key required'',
            json_body = JObj [(''detail'', JStr ''API key required'')]\<rparr>
      else \<lparr>ok = True, text_body = [], json_body = JObj []\<rparr>)"

subsection \<open>The token and cost estimator\<close>

text \<open>
  Modelled from the spec: the service behind \<^verbatim>\<open>/estimate\<close> and
  \<^verbatim>\<open>/estimate_tokens_cost\<close> is not among the sources, nor are its constants. The
  fixed per-mode tokens per page, the fixed output-token estimate and the static price
  table (dollars per token) are the fields of this record.
\<close>

record pricing =
  tokens_per_page_text :: nat
  tokens_per_page_layout :: nat
  tokens_per_page_images :: nat
  output_tokens_fixed :: nat
  price_per_input_token :: rat
  price_per_output_token :: rat

text \<open>Modelled from the spec: the response \<^verbatim>\<open>{input_tokens, output_tokens,
  estimated_cost}\<close> of the estimate operation.\<close>

record estimate =
  input_tokens :: nat
  output_tokens :: nat
  estimated_cost :: rat

text \<open>
  Modelled from the spec: the estimator's treatment of the \<^verbatim>\<open>mode\<close> field, "no error
  paths beyond missing/invalid mode (defaults to text)". A missing mode is \<^const>\<open>None\<close>.
\<close>

definition valid_mode :: "string option \<Rightarrow> bool" where
  "valid_mode m = (m = Some ''text'' \<or> m = Some ''text+layout'' \<or> m = Some ''page_images'')"

text \<open>Modelled from the spec: the mode the estimator works with, \<^verbatim>\<open>text\<close> when
  the given one is missing or invalid.\<close>

definition effective_mode :: "string option \<Rightarrow> string" where
  "effective_mode m = (if valid_mode m then the m else ''text'')"

text \<open>Modelled from the spec: the "fixed per-mode token/page constant".\<close>

definition tokens_per_page :: "pricing \<Rightarrow> string \<Rightarrow> nat" where
  "tokens_per_page P m =
     (if m = ''text+layout'' then tokens_per_page_layout P
      else if m = ''page_images'' then tokens_per_page_images P
      else tokens_per_page_text P)"

text \<open>
  Modelled from the spec: the estimator of section 4.2, "multiply remaining page count by
  a fixed per-mode token/page constant, add a fixed output-token estimate, apply a static
  price-per-token table". Its inputs are the page count after exclusion and the mode.
\<close>

definition estimate_tokens_cost :: "pricing \<Rightarrow> nat \<Rightarrow> string option \<Rightarrow> estimate" where
  "estimate_tokens_cost P retained m =
     (let inp = retained * tokens_per_page P (effective_mode m);
          outp = output_tokens_fixed P
      in \<lparr>input_tokens = inp,
          output_tokens = outp,
          estimated_cost =
            of_nat inp * price_per_input_token P + of_nat outp * price_per_output_token P\<rparr>)"

text \<open>
  Modelled from the spec: the pages of an \<open>n\<close>-page document that remain once the pages
  listed in \<^verbatim>\<open>pages_to_remove\<close> are excluded (indices are 1-based; an index outside
  the document removes nothing).
\<close>

definition retained_pages :: "nat \<Rightarrow> nat list \<Rightarrow> nat list" where
  "retained_pages n removed = filter (\<lambda>p. p \<notin> set removed) [1..<Suc n]"

text \<open>Modelled from the spec: the \<^verbatim>\<open>/estimate\<close> operation on an \<open>n\<close>-page document.\<close>

definition estimate_op :: "pricing \<Rightarrow> nat \<Rightarrow> string option \<Rightarrow> nat list \<Rightarrow> estimate" where
  "estimate_op P n m removed = estimate_tokens_cost P (length (retained_pages n removed)) m"

subsection \<open>The autocut heuristic\<close>

text \<open>
  Modelled from the spec: the page classifier behind \<^verbatim>\<open>/autocut\<close> is not among the
  sources. Section 4.1 gives it as a fixed rule table: marker lists (glossary, ESG,
  disclaimer, appendix headings) and a match threshold; "aggressive mode widens the keyword
  set and lowers the match threshold". The table is this record.
\<close>

record cut_rules =
  markers :: "string list"
  aggressive_markers :: "string list"
  threshold :: nat
  aggressive_threshold :: nat

text \<open>Modelled from the spec: "test text against keyword/section-heading lists", as
  the occurrence of a marker somewhere in the page text.\<close>

fun occurs_in :: "string \<Rightarrow> string \<Rightarrow> bool" where
  "occurs_in k [] = (k = [])"
| "occurs_in k (c # cs) = (take (length k) (c # cs) = k \<or> occurs_in k cs)"

text \<open>Modelled from the spec: the marker list in force, wider in aggressive mode.\<close>

definition active_markers :: "cut_rules \<Rightarrow> bool \<Rightarrow> string list" where
  "active_markers R aggr = (if aggr then markers R @ aggressive_markers R else markers R)"

text \<open>Modelled from the spec: the match threshold in force.\<close>

definition active_threshold :: "cut_rules \<Rightarrow> bool \<Rightarrow> nat" where
  "active_threshold R aggr = (if aggr then aggressive_threshold R else threshold R)"

text \<open>Modelled from the spec: the number of markers in force that a page text matches.\<close>

definition marker_hits :: "cut_rules \<Rightarrow> bool \<Rightarrow> string \<Rightarrow> nat" where
  "marker_hits R aggr txt = length (filter (\<lambda>k. occurs_in k txt) (active_markers R aggr))"

text \<open>
  Modelled from the spec: the decision for one page. "Pages with no extracted text
  (scanned images) are never auto-cut"; any other page is cut when enough markers match.
\<close>

definition page_is_cut :: "cut_rules \<Rightarrow> bool \<Rightarrow> string \<Rightarrow> bool" where
  "page_is_cut R aggr txt = (txt \<noteq> [] \<and> active_threshold R aggr \<le> marker_hits R aggr txt)"

text \<open>Modelled from the spec: the 1-based indices of the pages proposed for removal.\<close>

definition autocut_pages :: "cut_rules \<Rightarrow> bool \<Rightarrow> string list \<Rightarrow> nat list" where
  "autocut_pages R aggr pgs =
     map Suc (filter (\<lambda>i. page_is_cut R aggr (pgs ! i)) [0..<length pgs])"

text \<open>
  Modelled from the spec: the suggestion as "ranges/singletons". Consecutive indices are
  merged into one range.
\<close>

fun ranges_of :: "nat list \<Rightarrow> (nat \<times> nat) list" where
  "ranges_of [] = []"
| "ranges_of (p # ps) =
     (case ranges_of ps of
        [] \<Rightarrow> [(p, p)]
      | (l, h) # rs \<Rightarrow> if l = Suc p then (p, h) # rs else (p, p) # (l, h) # rs)"

text \<open>Modelled from the spec: a range or singleton as it is written in the suggestion.\<close>

definition show_range :: "nat \<times> nat \<Rightarrow> string" where
  "show_range r = (if fst r = snd r then show_nat (fst r)
                   else show_nat (fst r) @ ''-'' @ show_nat (snd r))"

text \<open>Modelled from the spec: the \<^verbatim>\<open>cut_suggestion\<close> string of \<^verbatim>\<open>/autocut\<close>,
  such as \<^verbatim>\<open>35-40\<close>.\<close>

definition autocut :: "cut_rules \<Rightarrow> bool \<Rightarrow> string list \<Rightarrow> string" where
  "autocut R aggr pgs = js_join '','' (map show_range (ranges_of (autocut_pages R aggr pgs)))"

text \<open>Modelled from the spec: the pages that a list of ranges proposes for removal.\<close>

definition in_ranges :: "(nat \<times> nat) list \<Rightarrow> nat \<Rightarrow> bool" where
  "in_ranges rs p = list_ex (\<lambda>r. fst r \<le> p \<and> p \<le> snd r) rs"

subsection \<open>The upload service\<close>

text \<open>
  Modelled from the spec: the documents the server holds in memory, by file id (for each
  the text of its pages, in order), and the number of identifiers issued so far.
\<close>

record server =
  docs :: "nat \<rightharpoonup> string list"
  issued :: nat

text \<open>
  Modelled from the spec: the upload handler is not among the sources; it "accepts a PDF
  blob, assigns a session-scoped identifier, and holds bytes in memory". Identifiers are
  numbered from 1, and each upload takes the next one.
\<close>

definition srv_upload :: "pdf_file \<Rightarrow> server \<Rightarrow> json \<times> server" where
  "srv_upload blob s =
     (let fid = Suc (issued s)
      in (JObj [(''file_id'', JNum (int fid))],
          s\<lparr>docs := (docs s)(fid \<mapsto> pages blob), issued := fid\<rparr>))"

text \<open>Modelled from the spec: the document that the \<^verbatim>\<open>file_id\<close> value of a
  request denotes, if any.\<close>

fun doc_of :: "server \<Rightarrow> json \<Rightarrow> string list option" where
  "doc_of s (JNum i) = (if 0 \<le> i then docs s (nat i) else None)"
| "doc_of s _ = None"

text \<open>
  The service behind \<^verbatim>\<open>/preprocess-pdf\<close> is not among the sources and is an argument
  of the model: any function that takes the fields of the request (\<^verbatim>\<open>file_id\<close>,
  \<^verbatim>\<open>mode\<close>, \<^verbatim>\<open>aggressive\<close>, \<^verbatim>\<open>force_cut\<close>, \<^verbatim>\<open>force_keep\<close>) and the
  documents held, and gives a failure text or a JSON body, and the documents held
  afterwards.
\<close>

type_synonym preprocess_service =
  "json \<Rightarrow> string \<Rightarrow> bool \<Rightarrow> string \<Rightarrow> string \<Rightarrow> server \<Rightarrow> (string + json) \<times> server"

subsection \<open>The React application: \<^verbatim>\<open>App.js\<close>\<close>

text \<open>
  The messages \<^verbatim>\<open>setToast\<close> shows, one constructor for each template in the source,
  with the values it interpolates (an error as the first 200 characters of its text,
  counted here in bytes, a cost as the value that \<^verbatim>\<open>Number(...).toFixed(4)\<close> will
  print).
\<close>

datatype toast =
    EstimatedRaw json
  | EstimatedFiltered json
  | EstimatorError string
  | PreprocessOK json json
  | PreprocessError string
  | NothingToReset
  | ResetDone
  | ResetFailed string
  | AnalyzeComplete json
  | AnalyzeError string
  | FileUploaded
  | UploadFailed string

text \<open>
  The component state (the industry selection, which only enters the body of the
  \<^verbatim>\<open>/score\<close> request, is left out).
\<close>

record app =
  file' :: "pdf_file option"
  fileId :: json
  costMode :: string
  preMode :: string
  cutForce :: string
  keepForce :: string
  aggressive :: bool
  pagesToRemoveRaw :: string
  busy :: bool
  toast :: "toast option"
  result :: json

text \<open>The initial values given to \<^verbatim>\<open>useState\<close>.\<close>

definition initial_app :: app where
  "initial_app =
     \<lparr>file' = None, fileId = JNull, costMode = ''text'', preMode = ''text'', cutForce = [],
      keepForce = [], aggressive = True, pagesToRemoveRaw = [], busy = False, toast = None,
      result = JNull\<rparr>"

text \<open>
  The helpers \<^verbatim>\<open>postJSON\<close> and \<^verbatim>\<open>postForm\<close> of \<^verbatim>\<open>App.js\<close>: a response that
  is not \<^verbatim>\<open>ok\<close> is thrown as an \<^verbatim>\<open>Error\<close> holding its text, any other is
  returned as decoded JSON. The argument is the failure text or the decoded body.
\<close>

definition received :: "string + json \<Rightarrow> js_error + json" where
  "received r = (case r of Inl t \<Rightarrow> Inl (JsError t) | Inr j \<Rightarrow> Inr j)"

text \<open>
  A request may fail before the service acts on it (a response that is not \<^verbatim>\<open>ok\<close>,
  with the given text); otherwise the service answers.
\<close>

definition attempt ::
  "string option \<Rightarrow> (server \<Rightarrow> (string + json) \<times> server) \<Rightarrow> server \<Rightarrow> (string + json) \<times> server" where
  "attempt failure service s = (case failure of Some t \<Rightarrow> (Inl t, s) | None \<Rightarrow> service s)"

text \<open>\<^verbatim>\<open>uploadFile(blob)\<close>.\<close>

definition uploadFile ::
  "string option \<Rightarrow> pdf_file \<Rightarrow> app \<times> server \<Rightarrow> (js_error + json) \<times> app \<times> server" where
  "uploadFile failure blob st =
     (let (a, s) = st;
          (r, s1) = attempt failure (\<lambda>s. let (j, s') = srv_upload blob s in (Inr j, s')) s
      in case received r of
           Inl e \<Rightarrow> (Inl e, a, s1)
         | Inr data \<Rightarrow>
             (case js_get data ''file_id'' of
                Inl e \<Rightarrow> (Inl e, a, s1)
              | Inr fid \<Rightarrow>
                  if \<not> truthy fid then (Inl (JsError ''Upload failed: no file_id''), a, s1)
                  else (Inr fid, a\<lparr>fileId := fid\<rparr>, s1)))"

text \<open>\<^verbatim>\<open>ensureUploaded()\<close>.\<close>

definition ensureUploaded ::
  "string option \<Rightarrow> app \<times> server \<Rightarrow> (js_error + json) \<times> app \<times> server" where
  "ensureUploaded failure st =
     (let (a, s) = st
      in if truthy (fileId a) then (Inr (fileId a), a, s)
         else (case file' a of
                 None \<Rightarrow> (Inl (JsError ''Please upload a PDF first.''), a, s)
               | Some f \<Rightarrow> uploadFile failure f (a, s)))"

text \<open>
  \<^verbatim>\<open>onEstimateRaw\<close> and \<^verbatim>\<open>onEstimateFiltered\<close>. The estimate changes nothing on
  the server, so its response is an argument.
\<close>

definition onEstimateRaw :: "string option \<Rightarrow> string + json \<Rightarrow> app \<times> server \<Rightarrow> app \<times> server" where
  "onEstimateRaw failure reply st =
     (let (a, s) = st
      in case ensureUploaded failure (a\<lparr>busy := True\<rparr>, s) of
           (Inl e, a1, s1) \<Rightarrow>
             (a1\<lparr>toast := Some (EstimatorError (take 200 (error_text e))), busy := False\<rparr>, s1)
         | (Inr fid, a1, s1) \<Rightarrow>
             (case received reply of
                Inl e \<Rightarrow>
                  (a1\<lparr>toast := Some (EstimatorError (take 200 (error_text e))), busy := False\<rparr>, s1)
              | Inr data \<Rightarrow>
                  (case js_get data ''cost_usd'' of
                     Inl e \<Rightarrow>
                       (a1\<lparr>toast := Some (EstimatorError (take 200 (error_text e))),
                           busy := False\<rparr>, s1)
                   | Inr c \<Rightarrow> (a1\<lparr>toast := Some (EstimatedRaw c), busy := False\<rparr>, s1))))"

definition onEstimateFiltered ::
  "string option \<Rightarrow> string + json \<Rightarrow> app \<times> server \<Rightarrow> app \<times> server" where
  "onEstimateFiltered failure reply st =
     (let (a, s) = st
      in case ensureUploaded failure (a\<lparr>busy := True\<rparr>, s) of
           (Inl e, a1, s1) \<Rightarrow>
             (a1\<lparr>toast := Some (EstimatorError (take 200 (error_text e))), busy := False\<rparr>, s1)
         | (Inr fid, a1, s1) \<Rightarrow>
             (case received reply of
                Inl e \<Rightarrow>
                  (a1\<lparr>toast := Some (EstimatorError (take 200 (error_text e))), busy := False\<rparr>, s1)
              | Inr data \<Rightarrow>
                  (case js_get data ''cost_usd'' of
                     Inl e \<Rightarrow>
                       (a1\<lparr>toast := Some (EstimatorError (take 200 (error_text e))),
                           busy := False\<rparr>, s1)
                   | Inr c \<Rightarrow> (a1\<lparr>toast := Some (EstimatedFiltered c), busy := False\<rparr>, s1))))"

text \<open>\<^verbatim>\<open>onPreprocess\<close>.\<close>

definition onPreprocess ::
  "preprocess_service \<Rightarrow> string option \<Rightarrow> string option \<Rightarrow> app \<times> server \<Rightarrow> app \<times> server" where
  "onPreprocess pre failure failure2 st =
     (let (a, s) = st
      in case ensureUploaded failure (a\<lparr>busy := True\<rparr>, s) of
           (Inl e, a1, s1) \<Rightarrow>
             (a1\<lparr>toast := Some (PreprocessError (take 200 (error_text e))), busy := False\<rparr>, s1)
         | (Inr fid, a1, s1) \<Rightarrow>
             (let (r, s2) = attempt failure2
                              (pre fid (preMode a) (aggressive a) (cutForce a) (keepForce a)) s1
              in case received r of
                   Inl e \<Rightarrow>
                     (a1\<lparr>toast := Some (PreprocessError (take 200 (error_text e))),
                         busy := False\<rparr>, s2)
                 | Inr data \<Rightarrow>
                     (case js_get data ''file_id'' of
                        Inl e \<Rightarrow>
                          (a1\<lparr>toast := Some (PreprocessError (take 200 (error_text e))),
                              busy := False\<rparr>, s2)
                      | Inr new_id \<Rightarrow>
                          ((if truthy new_id then a1\<lparr>fileId := new_id\<rparr> else a1)
                             \<lparr>toast := Some (PreprocessOK
                                              (js_or (js_prop data ''pages_removed'') (JStr ''auto''))
                                              (js_or (js_prop data ''kept_pages'') (JStr ''(auto)''))),
                              busy := False\<rparr>, s2))))"

text \<open>\<^verbatim>\<open>onReset\<close>: "the simplest reliable reset is to re-upload the original file".\<close>

definition onReset :: "string option \<Rightarrow> app \<times> server \<Rightarrow> app \<times> server" where
  "onReset failure st =
     (let (a, s) = st
      in case file' a of
           None \<Rightarrow> (a\<lparr>toast := Some NothingToReset\<rparr>, s)
         | Some f \<Rightarrow>
             (case uploadFile failure f (a\<lparr>busy := True\<rparr>, s) of
                (Inl e, a1, s1) \<Rightarrow>
                  (a1\<lparr>toast := Some (ResetFailed (take 200 (error_text e))), busy := False\<rparr>, s1)
              | (Inr fid, a1, s1) \<Rightarrow>
                  (a1\<lparr>fileId := fid, cutForce := [], keepForce := [], pagesToRemoveRaw := [],
                      result := JNull, toast := Some ResetDone, busy := False\<rparr>, s1)))"

text \<open>
  \<^verbatim>\<open>onAnalyze\<close>. Scoring changes no stored document, so the response of
  \<^verbatim>\<open>/score\<close> is an argument.
\<close>

definition onAnalyze :: "string option \<Rightarrow> string + json \<Rightarrow> app \<times> server \<Rightarrow> app \<times> server" where
  "onAnalyze failure reply st =
     (let (a, s) = st
      in if file' a = None \<and> \<not> truthy (fileId a)
         then (a\<lparr>toast := Some (AnalyzeError (take 200 (error_text (JsError ''Upload a PDF first.'')))),
                 busy := False\<rparr>, s)
         else
           (case ensureUploaded failure (a, s) of
              (Inl e, a1, s1) \<Rightarrow>
                (a1\<lparr>toast := Some (AnalyzeError (take 200 (error_text e))), busy := False\<rparr>, s1)
            | (Inr fid, a1, s1) \<Rightarrow>
                (case received reply of
                   Inl e \<Rightarrow>
                     (a1\<lparr>toast := Some (AnalyzeError (take 200 (error_text e))), busy := False\<rparr>, s1)
                 | Inr data \<Rightarrow>
                     (case js_get data ''final_rating'' of
                        Inl e \<Rightarrow>
                          (a1\<lparr>result := data,
                              toast := Some (AnalyzeError (take 200 (error_text e))),
                              busy := False\<rparr>, s1)
                      | Inr rating \<Rightarrow>
                          (a1\<lparr>result := data, toast := Some (AnalyzeComplete rating),
                              busy := False\<rparr>, s1)))))"

text \<open>\<^verbatim>\<open>onUpload(blob)\<close>, the callback handed to the file picker.\<close>

definition onUpload :: "string option \<Rightarrow> pdf_file \<Rightarrow> app \<times> server \<Rightarrow> app \<times> server" where
  "onUpload failure blob st =
     (let (a, s) = st;
          a0 = a\<lparr>file' := Some blob, result := JNull, pagesToRemoveRaw := [], cutForce := [],
                 keepForce := [], busy := True\<rparr>
      in case uploadFile failure blob (a0, s) of
           (Inl e, a1, s1) \<Rightarrow>
             (a1\<lparr>toast := Some (UploadFailed (take 200 (error_text e))), busy := False\<rparr>, s1)
         | (Inr fid, a1, s1) \<Rightarrow>
             (a1\<lparr>toast := Some FileUploaded, fileId := fid, busy := False\<rparr>, s1))"

text \<open>
  What can happen between an upload and a reset: the user edits a control of the page, or
  clicks a button other than the file picker. A click carries the outcome of each request
  it may send: a failure text, or nothing for a request that reaches the service.
\<close>

datatype action =
    SetCostMode string
  | SetPreMode string
  | SetCutForce string
  | SetKeepForce string
  | SetAggressive bool
  | SetPagesToRemoveRaw string
  | DismissToast
  | ClickEstimateRaw "string option" "string + json"
  | ClickEstimateFiltered "string option" "string + json"
  | ClickPreprocess "string option" "string option"
  | ClickAnalyze "string option" "string + json"
  | ClickReset "string option"

fun app_step :: "preprocess_service \<Rightarrow> app \<times> server \<Rightarrow> action \<Rightarrow> app \<times> server" where
  "app_step pre (a, s) (SetCostMode m) = (a\<lparr>costMode := m\<rparr>, s)"
| "app_step pre (a, s) (SetPreMode m) = (a\<lparr>preMode := m\<rparr>, s)"
| "app_step pre (a, s) (SetCutForce v) = (a\<lparr>cutForce := v\<rparr>, s)"
| "app_step pre (a, s) (SetKeepForce v) = (a\<lparr>keepForce := v\<rparr>, s)"
| "app_step pre (a, s) (SetAggressive v) = (a\<lparr>aggressive := v\<rparr>, s)"
| "app_step pre (a, s) (SetPagesToRemoveRaw v) = (a\<lparr>pagesToRemoveRaw := v\<rparr>, s)"
| "app_step pre (a, s) DismissToast = (a\<lparr>toast := None\<rparr>, s)"
| "app_step pre (a, s) (ClickEstimateRaw f r) = onEstimateRaw f r (a, s)"
| "app_step pre (a, s) (ClickEstimateFiltered f r) = onEstimateFiltered f r (a, s)"
| "app_step pre (a, s) (ClickPreprocess f g) = onPreprocess pre f g (a, s)"
| "app_step pre (a, s) (ClickAnalyze f r) = onAnalyze f r (a, s)"
| "app_step pre (a, s) (ClickReset f) = onReset f (a, s)"

definition app_run :: "preprocess_service \<Rightarrow> app \<times> server \<Rightarrow> action list \<Rightarrow> app \<times> server" where
  "app_run pre st acts = foldl (app_step pre) st acts"

text \<open>The document behind the client's current \<^verbatim>\<open>fileId\<close>, and its page count.\<close>

definition active_doc :: "app \<times> server \<Rightarrow> string list option" where
  "active_doc st = doc_of (snd st) (fileId (fst st))"

definition page_count :: "app \<times> server \<Rightarrow> nat option" where
  "page_count st = map_option length (active_doc st)"

section \<open>Properties\<close>

subsection \<open>The file picker\<close>

lemma of_char_canonicalize:
  "(of_char (canonicalize c) :: nat) =
     (if 97 \<le> (of_char c :: nat) \<and> (of_char c :: nat) \<le> 122 then of_char c - 32 else of_char c)"
proof -
  have "(of_char c :: nat) - 32 < 256"
    using nat_of_char_less_256 [of c] by linarith
  then show ?thesis by (simp add: canonicalize_def Let_def)
qed

lemma of_char_lower_ascii:
  "(of_char (lower_ascii c) :: nat) =
     (if 65 \<le> (of_char c :: nat) \<and> (of_char c :: nat) \<le> 90 then of_char c + 32 else of_char c)"
  by (simp add: lower_ascii_def Let_def)

lemma char_eq_nat: "c = d \<longleftrightarrow> (of_char c :: nat) = of_char d"
  by simp


lemma fold_nat:
  fixes n k :: nat
  assumes "97 \<le> k" "k \<le> 122"
  shows "((if 97 \<le> n \<and> n \<le> 122 then n - 32 else n) = k - 32)
         \<longleftrightarrow> ((if 65 \<le> n \<and> n \<le> 90 then n + 32 else n) = k)"
  using assms by (auto split: if_splits)

lemma canonicalize_lower:
  assumes "97 \<le> (of_char d :: nat)" "(of_char d :: nat) \<le> 122"
  shows "canonicalize c = canonicalize d \<longleftrightarrow> lower_ascii c = d"
proof -
  have "canonicalize c = canonicalize d
        \<longleftrightarrow> (of_char (canonicalize c) :: nat) = of_char (canonicalize d)"
    by simp
  also have "\<dots> \<longleftrightarrow> (of_char (lower_ascii c) :: nat) = of_char d"
    unfolding of_char_canonicalize of_char_lower_ascii
    using assms fold_nat [OF assms, of "of_char c"] by simp
  also have "\<dots> \<longleftrightarrow> lower_ascii c = d"
    by simp
  finally show ?thesis .
qed

lemma lower_dot: "lower_ascii c = CHR ''.'' \<longleftrightarrow> c = CHR ''.''"
proof -
  have "lower_ascii c = CHR ''.'' \<longleftrightarrow> (of_char (lower_ascii c) :: nat) = of_char (CHR ''.'')"
    by (simp only: of_char_eq_iff)
  also have "\<dots> \<longleftrightarrow> (of_char c :: nat) = of_char (CHR ''.'')"
    unfolding of_char_lower_ascii by auto
  also have "\<dots> \<longleftrightarrow> c = CHR ''.''"
    by (simp only: of_char_eq_iff)
  finally show ?thesis .
qed

lemma pdf_match_here_iff:
  "pdf_match_here s \<longleftrightarrow> map lower_ascii s = ''.pdf''"
  by (induction s rule: pdf_match_here.induct) (auto simp: canonicalize_lower lower_dot)

lemma pdf_match_here_length: "pdf_match_here s \<Longrightarrow> length s = 4"
  by (induction s rule: pdf_match_here.induct) auto

lemma pdf_regex_test_iff:
  "pdf_regex_test s \<longleftrightarrow> (\<exists>n \<le> length s. pdf_match_here (drop n s))"
proof (induction s)
  case Nil
  then show ?case by simp
next
  case (Cons c cs)
  have "(\<exists>n \<le> length (c # cs). pdf_match_here (drop n (c # cs)))
        \<longleftrightarrow> pdf_match_here (c # cs) \<or> (\<exists>n \<le> length cs. pdf_match_here (drop n cs))"
    (is "?L \<longleftrightarrow> ?R")
  proof
    assume ?L
    then obtain n where n: "n \<le> length (c # cs)" "pdf_match_here (drop n (c # cs))" by blast
    show ?R
    proof (cases n)
      case 0
      with n show ?thesis by simp
    next
      case (Suc m)
      with n show ?thesis by auto
    qed
  next
    assume ?R
    then show ?L
    proof
      assume "pdf_match_here (c # cs)"
      then have "pdf_match_here (drop 0 (c # cs))" by simp
      then show ?L by blast
    next
      assume "\<exists>n \<le> length cs. pdf_match_here (drop n cs)"
      then obtain n where "n \<le> length cs" "pdf_match_here (drop n cs)" by blast
      then have "Suc n \<le> length (c # cs)" "pdf_match_here (drop (Suc n) (c # cs))" by simp_all
      then show ?L by blast
    qed
  qed
  with Cons show ?case by simp
qed

lemma pdf_regex_test_ends: "pdf_regex_test s \<longleftrightarrow> ends_in_pdf s"
proof
  assume "pdf_regex_test s"
  then obtain n where n: "n \<le> length s" "pdf_match_here (drop n s)"
    by (auto simp: pdf_regex_test_iff)
  from n(2) have "length (drop n s) = 4" by (rule pdf_match_here_length)
  with n(1) have "n = length s - 4" "4 \<le> length s" by auto
  with n(2) show "ends_in_pdf s"
    by (simp add: ends_in_pdf_def pdf_match_here_iff)
next
  assume "ends_in_pdf s"
  then have "pdf_match_here (drop (length s - 4) s)" "length s - 4 \<le> length s"
    by (simp_all add: ends_in_pdf_def pdf_match_here_iff)
  then show "pdf_regex_test s" unfolding pdf_regex_test_iff by blast
qed

text \<open>
  Claim C10. Whatever list the file picker or a drop hands to \<^verbatim>\<open>handleFiles\<close>, the
  callback \<^verbatim>\<open>onFile\<close> is invoked with a file exactly when the list exists, is not
  empty, that file is its first entry and the name of that file ends in \<^verbatim>\<open>.pdf\<close>,
  letters compared without regard to case. For \<^verbatim>\<open>null\<close>, for an empty list and for a
  first file of any other name \<^verbatim>\<open>onFile\<close> is not invoked.
\<close>

theorem handleFiles_onFile_iff:
  "OnFile f \<in> set (handleFiles files)
     \<longleftrightarrow> (\<exists>fs. files = Some (f # fs)) \<and> ends_in_pdf (name f)"
  by (auto simp: handleFiles_def pdf_regex_test_ends split: option.splits list.splits)

theorem handleFiles_onFile_iff_witness:
  "OnFile \<lparr>name = ''Report.PdF'', pages = [''p1'']\<rparr>
     \<in> set (handleFiles (Some [\<lparr>name = ''Report.PdF'', pages = [''p1'']\<rparr>,
                                 \<lparr>name = ''notes.txt'', pages = []\<rparr>]))
   \<and> OnFile \<lparr>name = ''pdf'', pages = [''p1'']\<rparr>
     \<notin> set (handleFiles (Some [\<lparr>name = ''pdf'', pages = [''p1'']\<rparr>]))"
proof -
  have yes: "ends_in_pdf ''Report.PdF''" by code_simp
  have no: "\<not> ends_in_pdf ''pdf''" by (simp add: ends_in_pdf_def)
  from yes no show ?thesis unfolding handleFiles_onFile_iff by simp
qed


subsection \<open>Key and model storage\<close>

lemma js_trim_examples:
  "js_trim [] = []"
  "js_trim ''  '' = []"
  "js_trim '' sk-2 '' = ''sk-2''"
  "js_trim '' sk-3 '' = ''sk-3''"
  by code_simp+













subsection \<open>The key guard\<close>

lemma postJSON_no_key:
  "auth_key (getApiAuth b) = [] \<Longrightarrow>
     postJSON b fetch p body
       = (Inl (JsError ''OpenAI key not set (paste it at the top and click Save).''), [])"
  by (simp add: postJSON_def)

lemma postJSON_with_key:
  "auth_key (getApiAuth b) \<noteq> [] \<Longrightarrow>
     \<exists>req. snd (postJSON b fetch p body) = [req] \<and> path req = p \<and> payload req = body
           \<and> map_of (headers req) ''X-OpenAI-Key'' = Some (auth_key (getApiAuth b))"
  by (simp add: postJSON_def Let_def)

lemma estimate_click_effects:
  "truthy (uploadedId d) \<Longrightarrow> fst (snd (estimate_click fetch d)) = [Sent (estimate_request d)]"
  by (simp add: estimate_click_def Let_def split: sum.splits)

lemma estimate_request_key:
  "path (estimate_request d) = ''/estimate''
   \<and> js_prop (payload (estimate_request d)) ''api_key''
       = (if getApiKey d = [] then JNull else JStr (getApiKey d))
   \<and> js_prop (payload (estimate_request d)) ''mode'' = JStr (selected_mode (modeRadios d))"
  by (simp add: estimate_request_def js_or_def Let_def)

lemma analyze_click_effects:
  "truthy (uploadedId d) \<Longrightarrow> fst (snd (analyze_click fetch d)) = [Sent (analyze_request d)]"
  by (simp add: analyze_click_def Let_def split: sum.splits json.splits)

lemma analyze_request_key:
  "path (analyze_request d) = ''/analyze''
   \<and> js_prop (payload (analyze_request d)) ''api_key''
       = (if getApiKey d = [] then JNull else JStr (getApiKey d))"
  by (simp add: analyze_request_def js_or_def Let_def)

text \<open>
  Claim C7, as amended. A request made through \<^verbatim>\<open>postJSON\<close> of \<^verbatim>\<open>main.js\<close> is
  guarded on the client: when no key is stored (\<^verbatim>\<open>getApiAuth\<close> gives the empty key),
  \<^verbatim>\<open>postJSON\<close> throws the error "OpenAI key not set" itself and issues no request; when
  a key is stored it issues exactly one request, to the given path, carrying the key in
  the header \<^verbatim>\<open>X-OpenAI-Key\<close>. The estimate and analyze handlers of the plain-DOM
  client have no such guard: once a file is uploaded they always send their request, with
  \<^verbatim>\<open>api_key\<close> \<^verbatim>\<open>null\<close> when the key field is empty.
\<close>

theorem postJSON_key_guard:
  "(auth_key (getApiAuth b) = [] \<longrightarrow>
      postJSON b fetch p body
        = (Inl (JsError ''OpenAI key not set (paste it at the top and click Save).''), []))
   \<and> (auth_key (getApiAuth b) \<noteq> [] \<longrightarrow>
        (\<exists>req. snd (postJSON b fetch p body) = [req] \<and> path req = p \<and> payload req = body
               \<and> map_of (headers req) ''X-OpenAI-Key'' = Some (auth_key (getApiAuth b))))
   \<and> (truthy (uploadedId d) \<longrightarrow>
        fst (snd (estimate_click fetch d)) = [Sent (estimate_request d)]
        \<and> fst (snd (analyze_click fetch d)) = [Sent (analyze_request d)]
        \<and> js_prop (payload (estimate_request d)) ''api_key''
            = (if getApiKey d = [] then JNull else JStr (getApiKey d))
        \<and> js_prop (payload (analyze_request d)) ''api_key''
            = (if getApiKey d = [] then JNull else JStr (getApiKey d)))"
  using postJSON_no_key [of b fetch p body] postJSON_with_key [of b fetch p body]
    estimate_click_effects [of d fetch] analyze_click_effects [of d fetch]
    estimate_request_key [of d] analyze_request_key [of d]
  by blast

theorem postJSON_key_guard_witness:
  "auth_key
     (getApiAuth \<lparr>localStorage = Map.empty, sessionStorage = Map.empty, keyInput = [],
                  modelInput = [], remember = False\<rparr>) = []
   \<and> postJSON
       \<lparr>localStorage = Map.empty, sessionStorage = Map.empty, keyInput = [],
        modelInput = [], remember = False\<rparr>
       key_required_server ''/score'' (JObj [])
     = (Inl (JsError ''OpenAI key not set (paste it at the top and click Save).''), [])
   \<and> auth_key
       (getApiAuth \<lparr>localStorage = Map.empty, sessionStorage = [''OPENAI_KEY'' \<mapsto> ''sk-1''],
                    keyInput = [], modelInput = [], remember = False\<rparr>) \<noteq> []
   \<and> length
       (snd (postJSON
               \<lparr>localStorage = Map.empty, sessionStorage = [''OPENAI_KEY'' \<mapsto> ''sk-1''],
                keyInput = [], modelInput = [], remember = False\<rparr>
               key_required_server ''/score'' (JObj []))) = 1
   \<and> truthy (uploadedId
       \<lparr>apiKeyInput = ''  '', modeRadios = [(''text'', True)], cutPages = [],
        industrySelect = [], manualValues = [], uploadedId = JStr ''f1'',
        estimateOut = EstimateText [], analyzeStatus = StatusShown [], resultsTable = [],
        finalScore = []\<rparr>)
   \<and> js_prop
       (payload (estimate_request
          \<lparr>apiKeyInput = ''  '', modeRadios = [(''text'', True)], cutPages = [],
           industrySelect = [], manualValues = [], uploadedId = JStr ''f1'',
           estimateOut = EstimateText [], analyzeStatus = StatusShown [], resultsTable = [],
           finalScore = []\<rparr>)) ''api_key'' = JNull"
proof -
  let ?b0 = "\<lparr>localStorage = Map.empty, sessionStorage = Map.empty, keyInput = [],
              modelInput = [], remember = False\<rparr>"
  let ?b1 = "\<lparr>localStorage = Map.empty, sessionStorage = [''OPENAI_KEY'' \<mapsto> ''sk-1''],
              keyInput = [], modelInput = [], remember = False\<rparr>"
  let ?d = "\<lparr>apiKeyInput = ''  '', modeRadios = [(''text'', True)], cutPages = [],
             industrySelect = [], manualValues = [], uploadedId = JStr ''f1'',
             estimateOut = EstimateText [], analyzeStatus = StatusShown [], resultsTable = [],
             finalScore = []\<rparr>"
  have h0: "auth_key (getApiAuth ?b0) = []" by (simp add: getApiAuth_def)
  have h1: "auth_key (getApiAuth ?b1) \<noteq> []" by (simp add: getApiAuth_def)
  have h2: "truthy (uploadedId ?d)" by simp
  have k: "getApiKey ?d = []" by (simp add: getApiKey_def js_trim_examples)
  from postJSON_key_guard [of ?b0 key_required_server "''/score''" "JObj []" ?d] h0
  have c0: "postJSON ?b0 key_required_server ''/score'' (JObj [])
              = (Inl (JsError ''OpenAI key not set (paste it at the top and click Save).''), [])"
    by blast
  from postJSON_key_guard [of ?b1 key_required_server "''/score''" "JObj []" ?d] h1
  have c1: "length (snd (postJSON ?b1 key_required_server ''/score'' (JObj []))) = 1"
    by auto
  from postJSON_key_guard [of ?b0 key_required_server "''/score''" "JObj []" ?d] h2 k
  have c2: "js_prop (payload (estimate_request ?d)) ''api_key'' = JNull"
    by simp
  from h0 h1 h2 c0 c1 c2 show ?thesis by blast
qed

text \<open>
  The claim as stated fails on the plain-DOM client: with an uploaded file and an empty
  key field, the estimate handler makes no check of its own. It sends the request with
  \<^verbatim>\<open>api_key\<close> \<^verbatim>\<open>null\<close>, and what the page shows is the refusal of a server that
  insists on a key.
\<close>

theorem missing_key_is_sent:
  "estimate_click key_required_server
     \<lparr>apiKeyInput = ''  '', modeRadios = [(''text'', True)], cutPages = [], industrySelect = [],
      manualValues = [], uploadedId = JStr ''f1'', estimateOut = EstimateText [],
      analyzeStatus = StatusShown [], resultsTable = [], finalScore = []\<rparr>
   = (\<lparr>apiKeyInput = ''  '', modeRadios = [(''text'', True)], cutPages = [], industrySelect = [],
       manualValues = [], uploadedId = JStr ''f1'', estimateOut = EstimateText ''API key required'',
       analyzeStatus = StatusShown [], resultsTable = [], finalScore = []\<rparr>,
      [Sent \<lparr>path = ''/estimate'', headers = [(''Content-Type'', ''application/json'')],
             payload = JObj [(''file_id'', JStr ''f1''), (''pages'', JStr []),
                             (''mode'', JStr ''text''), (''api_key'', JNull)]\<rparr>],
      None)"
  by (simp add: estimate_click_def estimate_request_def key_required_server_def getApiKey_def
        js_trim_examples selected_mode_def js_or_def js_get_def Let_def)

subsection \<open>Rendering of the analysis result\<close>













text \<open>
  The factor cell of the plain-DOM table has no default: for a row without a
  \<^verbatim>\<open>factor\<close> the text interpolated is \<^verbatim>\<open>undefined\<close>.
\<close>

lemma breakdown_row_factor_absent:
  "breakdown_texts (JObj []) = [''undefined'', [], [], [] ]"
  by (simp add: breakdown_texts_def js_coalesce_def)


subsection \<open>Reset\<close>

lemma uploadFile_file: "uploadFile u b (a, s) = (r, a1, s1) \<Longrightarrow> file' a1 = file' a"
  by (auto simp: uploadFile_def Let_def split: prod.splits sum.splits if_splits)

lemma ensureUploaded_file: "ensureUploaded u (a, s) = (r, a1, s1) \<Longrightarrow> file' a1 = file' a"
  by (auto simp: ensureUploaded_def Let_def dest: uploadFile_file split: option.splits if_splits)

lemma onEstimateRaw_file: "file' (fst (onEstimateRaw u r (a, s))) = file' a"
  by (auto simp: onEstimateRaw_def dest!: ensureUploaded_file split: prod.splits sum.splits)

lemma onEstimateFiltered_file: "file' (fst (onEstimateFiltered u r (a, s))) = file' a"
  by (auto simp: onEstimateFiltered_def dest!: ensureUploaded_file split: prod.splits sum.splits)

lemma onPreprocess_file: "file' (fst (onPreprocess pre u v (a, s))) = file' a"
  by (auto simp: onPreprocess_def Let_def dest!: ensureUploaded_file split: prod.splits sum.splits)

lemma onAnalyze_file: "file' (fst (onAnalyze u r (a, s))) = file' a"
  by (auto simp: onAnalyze_def dest!: ensureUploaded_file split: prod.splits sum.splits)

lemma onReset_file: "file' (fst (onReset u (a, s))) = file' a"
  by (auto simp: onReset_def dest!: uploadFile_file split: prod.splits sum.splits option.splits)

lemma app_step_file: "file' (fst (app_step pre st act)) = file' (fst st)"
  by (cases st; cases act)
     (simp_all add: onEstimateRaw_file onEstimateFiltered_file onPreprocess_file onAnalyze_file onReset_file)

lemma app_run_file: "file' (fst (app_run pre st acts)) = file' (fst st)"
  unfolding app_run_def by (induction acts arbitrary: st) (simp_all add: app_step_file)

lemma onUpload_file: "file' (fst (onUpload u f (a, s))) = Some f"
  by (auto simp: onUpload_def Let_def dest!: uploadFile_file split: prod.splits sum.splits)

lemma doc_of_srv_upload:
  "srv_upload f s = (j, s1) \<Longrightarrow>
     j = JObj [(''file_id'', JNum (int (Suc (issued s))))]
     \<and> doc_of s1 (JNum (int (Suc (issued s)))) = Some (pages f)"
  by (auto simp: srv_upload_def Let_def simp del: of_nat_Suc)

lemma uploadFile_ok:
  "\<exists>fid a1 s1. uploadFile None f (a, s) = (Inr fid, a1, s1) \<and> doc_of s1 fid = Some (pages f)"
proof -
  obtain j s1 where up: "srv_upload f s = (j, s1)" by (cases "srv_upload f s")
  note d = doc_of_srv_upload [OF up]
  have "uploadFile None f (a, s)
        = (Inr (JNum (int (Suc (issued s)))), a\<lparr>fileId := JNum (int (Suc (issued s)))\<rparr>, s1)"
    using up d by (simp add: uploadFile_def attempt_def received_def js_get_def del: of_nat_Suc)
  with d show ?thesis by blast
qed

lemma onReset_page_count:
  "file' a = Some f \<Longrightarrow> active_doc (onReset None (a, s)) = Some (pages f)"
  using uploadFile_ok [of f "a\<lparr>busy := True\<rparr>" s]
  by (auto simp: onReset_def active_doc_def)

text \<open>
  When the upload request of a reset is refused, nothing is restored: the client keeps
  the file id it had and reports the failure.
\<close>

lemma uploadFile_failed:
  "uploadFile (Some t) f (a, s) = (Inl (JsError t), a, s)"
  by (simp add: uploadFile_def attempt_def received_def)

lemma reset_failure_keeps_document:
  "file' a = Some f \<Longrightarrow>
     fileId (fst (onReset (Some t) (a, s))) = fileId a
     \<and> snd (onReset (Some t) (a, s)) = s
     \<and> toast (fst (onReset (Some t) (a, s))) = Some (ResetFailed (take 200 (''Error: '' @ t)))"
  by (simp add: onReset_def uploadFile_failed)

text \<open>
  Claim C4. After a file \<open>f\<close> has been handed to \<^verbatim>\<open>onUpload\<close> and after any sequence
  of edits, estimates, preprocess runs, analyses and resets (each request of which may
  fail or succeed, whatever the preprocessing service does to the stored documents), a
  reset whose upload request is answered leaves the client on a document with as many
  pages as \<open>f\<close> has.
\<close>

theorem reset_restores_page_count:
  "page_count (onReset None (app_run pre (onUpload u f (a, s)) acts)) = Some (length (pages f))"
proof -
  obtain a1 s1 where st: "app_run pre (onUpload u f (a, s)) acts = (a1, s1)"
    by (cases "app_run pre (onUpload u f (a, s)) acts")
  have "file' a1 = Some f"
    using app_run_file [of pre "onUpload u f (a, s)" acts] st by (simp add: onUpload_file)
  then show ?thesis by (simp add: st page_count_def onReset_page_count)
qed


theorem reset_restores_page_count_witness:
  "page_count
     (onReset None
        (app_run (\<lambda>fid m aggr fc fk s. (Inr (JObj [(''file_id'', fid)]), s\<lparr>docs := Map.empty\<rparr>))
           (onUpload None \<lparr>name = ''report.pdf'', pages = [''Intro'', ''ESG'', [], ''Glossary'']\<rparr>
              (initial_app, \<lparr>docs = Map.empty, issued = 0\<rparr>))
           [SetKeepForce ''1'', ClickPreprocess None None, ClickEstimateFiltered None (Inl ''busy'')]))
   = Some 4"
  by (simp add: reset_restores_page_count)

subsection \<open>The services modelled from the specification\<close>

lemma estimated_cost_eq:
  "estimated_cost (estimate_tokens_cost P k m) =
     of_nat (k * tokens_per_page P (effective_mode m)) * price_per_input_token P
     + of_nat (output_tokens_fixed P) * price_per_output_token P"
  by (simp add: estimate_tokens_cost_def Let_def)

text \<open>
  Claim C1. For every document (of \<open>n\<close> pages), every mode (the three rendering modes,
  and any other value, which counts as text) and every price table whose price per input
  token is not negative: of two estimates on that document and mode, the one that retains
  at least as many pages has an estimated cost at least as large.
\<close>

theorem estimate_cost_monotone:
  assumes price: "0 \<le> price_per_input_token P"
    and fewer: "length (retained_pages n r2) \<le> length (retained_pages n r1)"
  shows "estimated_cost (estimate_op P n m r2) \<le> estimated_cost (estimate_op P n m r1)"
proof -
  let ?t = "tokens_per_page P (effective_mode m)"
  from fewer have "length (retained_pages n r2) * ?t \<le> length (retained_pages n r1) * ?t"
    by (rule mult_le_mono1)
  then have "(of_nat (length (retained_pages n r2) * ?t) :: rat)
             \<le> of_nat (length (retained_pages n r1) * ?t)"
    by (simp only: of_nat_le_iff)
  then have "of_nat (length (retained_pages n r2) * ?t) * price_per_input_token P
             \<le> of_nat (length (retained_pages n r1) * ?t) * price_per_input_token P"
    using price by (rule mult_right_mono)
  then show ?thesis
    by (simp only: estimate_op_def estimated_cost_eq add_le_cancel_right)
qed

theorem estimate_cost_monotone_witness:
  "0 \<le> price_per_input_token 
     \<lparr>tokens_per_page_text = 500, tokens_per_page_layout = 700,
      tokens_per_page_images = 1000, output_tokens_fixed = 800,
      price_per_input_token = 1 / 1000000, price_per_output_token = 4 / 1000000\<rparr>
   \<and> length (retained_pages 3 [1, 2]) \<le> length (retained_pages 3 [3])
   \<and> estimated_cost (estimate_op 
     \<lparr>tokens_per_page_text = 500, tokens_per_page_layout = 700,
      tokens_per_page_images = 1000, output_tokens_fixed = 800,
      price_per_input_token = 1 / 1000000, price_per_output_token = 4 / 1000000\<rparr> 3 (Some ''page_images'') [1, 2])
       \<le> estimated_cost (estimate_op 
     \<lparr>tokens_per_page_text = 500, tokens_per_page_layout = 700,
      tokens_per_page_images = 1000, output_tokens_fixed = 800,
      price_per_input_token = 1 / 1000000, price_per_output_token = 4 / 1000000\<rparr> 3 (Some ''page_images'') [3])"
proof -
  have h1: "0 \<le> price_per_input_token 
     \<lparr>tokens_per_page_text = 500, tokens_per_page_layout = 700,
      tokens_per_page_images = 1000, output_tokens_fixed = 800,
      price_per_input_token = 1 / 1000000, price_per_output_token = 4 / 1000000\<rparr>" by simp
  have h2: "length (retained_pages 3 [1, 2]) \<le> length (retained_pages 3 [3])"
    by (simp add: retained_pages_def upt_rec)
  from h1 h2 estimate_cost_monotone [OF h1 h2, of "Some ''page_images''"] show ?thesis
    by blast
qed

lemma in_ranges_Cons: "in_ranges (r # rs) p \<longleftrightarrow> (fst r \<le> p \<and> p \<le> snd r) \<or> in_ranges rs p"
  by (simp add: in_ranges_def)

lemma ranges_of_ordered: "r \<in> set (ranges_of ps) \<Longrightarrow> fst r \<le> snd r"
proof (induction ps arbitrary: r)
  case Nil
  then show ?case by simp
next
  case (Cons q qs)
  show ?case
  proof (cases "ranges_of qs")
    case Nil
    with Cons.prems show ?thesis by simp
  next
    case (Cons x xs)
    obtain l h where x: "x = (l, h)" by (cases x)
    have lh: "l \<le> h" using Cons.IH [of x] Cons x by simp
    have rest: "r \<in> set xs \<Longrightarrow> fst r \<le> snd r" using Cons.IH [of r] Cons by simp
    from Cons.prems Cons x lh rest show ?thesis
      by (auto split: if_splits)
  qed
qed

lemma in_ranges_ranges_of: "in_ranges (ranges_of ps) p \<longleftrightarrow> p \<in> set ps"
proof (induction ps)
  case Nil
  then show ?case by (simp add: in_ranges_def)
next
  case (Cons q qs)
  show ?case
  proof (cases "ranges_of qs")
    case Nil
    with Cons show ?thesis by (auto simp: in_ranges_def)
  next
    case (Cons x xs)
    obtain l h where x: "x = (l, h)" by (cases x)
    have lh: "l \<le> h" using ranges_of_ordered [of x qs] Cons x by simp
    from Cons.IH Cons x have IH: "p \<in> set qs \<longleftrightarrow> (l \<le> p \<and> p \<le> h) \<or> in_ranges xs p"
      by (simp add: in_ranges_Cons)
    show ?thesis
    proof (cases "l = Suc q")
      case True
      with Cons x have "ranges_of (q # qs) = (q, h) # xs" by simp
      then have "in_ranges (ranges_of (q # qs)) p \<longleftrightarrow> (q \<le> p \<and> p \<le> h) \<or> in_ranges xs p"
        by (simp add: in_ranges_Cons)
      also have "\<dots> \<longleftrightarrow> p = q \<or> (l \<le> p \<and> p \<le> h) \<or> in_ranges xs p"
        using True lh by auto
      finally show ?thesis using IH by auto
    next
      case False
      with Cons x have "ranges_of (q # qs) = (q, q) # (l, h) # xs" by simp
      then have "in_ranges (ranges_of (q # qs)) p \<longleftrightarrow> p = q \<or> (l \<le> p \<and> p \<le> h) \<or> in_ranges xs p"
        by (auto simp: in_ranges_Cons)
      then show ?thesis using IH by auto
    qed
  qed
qed

lemma autocut_pages_iff:
  "p \<in> set (autocut_pages R aggr pgs)
     \<longleftrightarrow> (\<exists>i < length pgs. p = Suc i \<and> page_is_cut R aggr (pgs ! i))"
  by (auto simp: autocut_pages_def)

text \<open>
  Claim C8. A page whose extracted text is empty is never proposed for removal: its index
  lies in none of the ranges of the autocut suggestion, for every rule table and for both
  values of the aggressive flag.
\<close>

theorem autocut_skips_empty_pages:
  assumes "i < length pgs" and "pgs ! i = []"
  shows "\<not> in_ranges (ranges_of (autocut_pages R aggr pgs)) (Suc i)"
  using assms by (simp add: in_ranges_ranges_of autocut_pages_iff page_is_cut_def)

theorem autocut_skips_empty_pages_witness:
  "(1::nat) < length [''ESG report'', [], ''Glossary'']
   \<and> [''ESG report'', [], ''Glossary''] ! 1 = []
   \<and> \<not> in_ranges
       (ranges_of
          (autocut_pages
             \<lparr>markers = [''Glossary''], aggressive_markers = [''ESG''], threshold = 1,
              aggressive_threshold = 0\<rparr>
             True [''ESG report'', [], ''Glossary'']))
       (Suc 1)"
proof -
  have h1: "(1::nat) < length [''ESG report'', [], ''Glossary'']" by simp
  have h2: "[''ESG report'', [], ''Glossary''] ! 1 = []" by simp
  from h1 h2 autocut_skips_empty_pages [OF h1 h2] show ?thesis by blast
qed

lemma selected_mode_default: "\<forall>r \<in> set radios. \<not> snd r \<Longrightarrow> selected_mode radios = ''text''"
proof -
  assume "\<forall>r \<in> set radios. \<not> snd r"
  then have "find snd radios = None" by (auto simp: find_None_iff)
  then show ?thesis by (simp add: selected_mode_def)
qed

text \<open>
  Claim C6. An estimate request whose mode is missing or is not one of the three rendering
  modes does not fail: the estimator answers with the estimate it gives for mode
  \<^verbatim>\<open>text\<close>. On the client side, the estimate handler sends mode \<^verbatim>\<open>text\<close> when no
  mode radio button is checked.
\<close>

theorem estimate_mode_default:
  "(\<not> valid_mode m \<longrightarrow> estimate_op P n m removed = estimate_op P n (Some ''text'') removed)
   \<and> (truthy (uploadedId d) \<and> (\<forall>r \<in> set (modeRadios d). \<not> snd r) \<longrightarrow>
        fst (snd (estimate_click fetch d)) = [Sent (estimate_request d)]
        \<and> js_prop (payload (estimate_request d)) ''mode'' = JStr ''text'')
   \<and> costMode initial_app = ''text'' \<and> preMode initial_app = ''text''"
proof -
  have "\<not> valid_mode m \<Longrightarrow> estimate_op P n m removed = estimate_op P n (Some ''text'') removed"
    by (simp add: estimate_op_def estimate_tokens_cost_def effective_mode_def valid_mode_def)
  moreover have "truthy (uploadedId d) \<Longrightarrow> \<forall>r \<in> set (modeRadios d). \<not> snd r \<Longrightarrow>
      fst (snd (estimate_click fetch d)) = [Sent (estimate_request d)]
      \<and> js_prop (payload (estimate_request d)) ''mode'' = JStr ''text''"
    using estimate_click_effects [of d fetch] estimate_request_key [of d]
    by (simp add: selected_mode_default)
  moreover have "costMode initial_app = ''text'' \<and> preMode initial_app = ''text''"
    by (simp add: initial_app_def)
  ultimately show ?thesis by blast
qed

theorem estimate_mode_default_witness:
  "\<not> valid_mode (Some ''pdf'')
   \<and> estimate_op 
     \<lparr>tokens_per_page_text = 500, tokens_per_page_layout = 700,
      tokens_per_page_images = 1000, output_tokens_fixed = 800,
      price_per_input_token = 1 / 1000000, price_per_output_token = 4 / 1000000\<rparr>
     3 (Some ''pdf'') [2] = estimate_op 
     \<lparr>tokens_per_page_text = 500, tokens_per_page_layout = 700,
      tokens_per_page_images = 1000, output_tokens_fixed = 800,
      price_per_input_token = 1 / 1000000, price_per_output_token = 4 / 1000000\<rparr>
     3 (Some ''text'') [2]
   \<and> input_tokens (estimate_op 
     \<lparr>tokens_per_page_text = 500, tokens_per_page_layout = 700,
      tokens_per_page_images = 1000, output_tokens_fixed = 800,
      price_per_input_token = 1 / 1000000, price_per_output_token = 4 / 1000000\<rparr>
     3 None [2]) = 1000"
proof -
  have h: "\<not> valid_mode (Some ''pdf'')" by (simp add: valid_mode_def)
  have n: "input_tokens (estimate_op 
     \<lparr>tokens_per_page_text = 500, tokens_per_page_layout = 700,
      tokens_per_page_images = 1000, output_tokens_fixed = 800,
      price_per_input_token = 1 / 1000000, price_per_output_token = 4 / 1000000\<rparr>
     3 None [2]) = 1000"
    by (simp add: estimate_op_def estimate_tokens_cost_def effective_mode_def valid_mode_def
          tokens_per_page_def retained_pages_def upt_rec)
  from h n estimate_mode_default [of "Some ''pdf''"] show ?thesis by blast
qed

end
